theory Spec2Isabelle
  imports Complex_Main "HOL-Library.AList" "HOL-Library.List_Lexorder" "HOL-Library.Char_ord"
begin

section \<open>cirq/value/linear\_dict.py: LinearDict\<close>

text \<open>
  \<^verbatim>\<open>LinearDict\<close> subclasses Python's built-in \<^verbatim>\<open>dict\<close>. A Python dict keeps its
  keys unique and in insertion order, so the storage of one object is an association
  list: storing under a present key replaces the coefficient in place, storing under a
  new key appends, deleting removes the entry.

  Coefficients (\<^verbatim>\<open>Scalar = Union[complex, float]\<close>) are modelled as the exact complex
  numbers: \<^verbatim>\<open>abs\<close> is \<^term>\<open>cmod\<close>, and there is no rounding, no infinity and no NaN.

  A method that can raise returns a sum: \<open>Inl\<close> the exception, \<open>Inr\<close> the value.
\<close>

type_synonym 'k dict = "('k \<times> complex) list"

subsection \<open>The built-in dict methods reached through \<^verbatim>\<open>super()\<close>\<close>

definition dict_get :: "'k dict \<Rightarrow> 'k \<Rightarrow> complex \<Rightarrow> complex" where
  "dict_get d v dflt = (case map_of d v of None \<Rightarrow> dflt | Some c \<Rightarrow> c)"

definition dict_contains :: "'k dict \<Rightarrow> 'k \<Rightarrow> bool" where
  "dict_contains d v = (case map_of d v of None \<Rightarrow> False | Some c \<Rightarrow> True)"

definition dict_setitem :: "'k dict \<Rightarrow> 'k \<Rightarrow> complex \<Rightarrow> 'k dict" where
  "dict_setitem d v c = AList.update v c d"

definition dict_delitem :: "'k dict \<Rightarrow> 'k \<Rightarrow> 'k dict" where
  "dict_delitem d v = AList.delete v d"

text \<open>\<^verbatim>\<open>dict.update(other)\<close> with a mapping or a sequence of pairs: one store per pair,
  in the order of the input.\<close>

definition dict_update :: "'k dict \<Rightarrow> ('k \<times> complex) list \<Rightarrow> 'k dict" where
  "dict_update d other = fold (\<lambda>(v, c) acc. dict_setitem acc v c) other d"


subsection \<open>The methods of LinearDict, on the storage of \<^verbatim>\<open>self\<close>\<close>

text \<open>
  \<^verbatim>\<open>
  def clean(self, *, atol: float=1e-9) -> 'LinearDict':
      negligible = [v for v, c in super().items() if abs(c) <= atol]
      for v in negligible:
          del self[v]
      return self
  \<close>
  The keyword argument is an option: \<open>None\<close> is the call without it.
\<close>

definition clean :: "'k dict \<Rightarrow> real option \<Rightarrow> 'k dict" where
  "clean self atol_arg =
     (let atol = (case atol_arg of None \<Rightarrow> 1 / 10 ^ 9 | Some t \<Rightarrow> t);
          negligible = [v. (v, c) \<leftarrow> self, cmod c \<le> atol]
      in fold (\<lambda>v acc. dict_delitem acc v) negligible self)"

text \<open>
  \<^verbatim>\<open>
  def update(self, *args, **kwargs):
      super().update(*args, **kwargs)
      self.clean(atol=0)
  def __init__(self, terms):
      super().__init__()
      self.update(terms)
  \<close>
\<close>

definition update :: "'k dict \<Rightarrow> ('k \<times> complex) list \<Rightarrow> 'k dict" where
  "update self other = clean (dict_update self other) (Some 0)"

definition LinearDict :: "('k \<times> complex) list \<Rightarrow> 'k dict" where
  "LinearDict terms = update [] terms"


text \<open>
  \<^verbatim>\<open>
  def get(self, vector, default=0):
      if super().get(vector, 0) == 0:
          return default
      return super().get(vector)
  \<close>
  The default is any Python value; \<^verbatim>\<open>dict.get(vector)\<close> answers \<^verbatim>\<open>None\<close> for a key
  that is absent.
\<close>

datatype 'd pyval = Coefficient complex | Default 'd | PyNone

definition get :: "'k dict \<Rightarrow> 'k \<Rightarrow> 'd \<Rightarrow> 'd pyval" where
  "get self vector dflt =
     (if dict_get self vector 0 = 0 then Default dflt
      else (case map_of self vector of None \<Rightarrow> PyNone | Some c \<Rightarrow> Coefficient c))"


definition getitem :: "'k dict \<Rightarrow> 'k \<Rightarrow> complex" where
  "getitem self vector = dict_get self vector 0"

definition setitem :: "'k dict \<Rightarrow> 'k \<Rightarrow> complex \<Rightarrow> 'k dict" where
  "setitem self vector coefficient =
     (if coefficient \<noteq> 0 then dict_setitem self vector coefficient
      else if dict_contains self vector then dict_delitem self vector
      else self)"


subsection \<open>Exceptions, and the cycle between \<^verbatim>\<open>copy\<close> and \<^verbatim>\<open>keys\<close>\<close>

datatype error = ZeroDivisionError | ValueError | RecursionError

text \<open>
  \<^verbatim>\<open>
  def copy(self):
      return LinearDict(super().copy())
  def keys(self):
      snapshot = self.copy().clean(atol=0)
      return super(LinearDict, snapshot).keys()
  \<close>
  \<^verbatim>\<open>super().copy()\<close> is the built-in \<^verbatim>\<open>dict.copy\<close> applied to an object of the
  subclass. The built-in returns a new empty dict at once when the storage is empty.
  Otherwise it copies the storage directly only for a class that iterates the way
  \<^verbatim>\<open>dict\<close> does; \<^verbatim>\<open>LinearDict\<close> overrides \<^verbatim>\<open>__iter__\<close>, so the built-in goes through
  the mapping protocol: it calls the object's own \<^verbatim>\<open>keys()\<close> and then reads every key
  with the object's own \<^verbatim>\<open>__getitem__\<close>. So \<^verbatim>\<open>copy\<close> calls \<^verbatim>\<open>keys\<close>, which calls
  \<^verbatim>\<open>copy\<close>.

  The interpreter bounds the depth of nested calls and raises RecursionError when a
  call would exceed the bound. This cycle is the only unbounded nesting the class can
  produce, so the bound is counted in nested calls of \<^verbatim>\<open>copy\<close>: the first argument
  \<open>n\<close> of every method that can reach \<^verbatim>\<open>copy\<close> is the number of them that may still be
  entered.
\<close>

fun copy :: "nat \<Rightarrow> 'k dict \<Rightarrow> error + 'k dict"
  and dict_copy :: "nat \<Rightarrow> 'k dict \<Rightarrow> error + 'k dict"
  and keys :: "nat \<Rightarrow> 'k dict \<Rightarrow> error + 'k list" where
  "copy 0 self = Inl RecursionError"
| "copy (Suc n) self =
     (case dict_copy n self of Inl e \<Rightarrow> Inl e | Inr terms \<Rightarrow> Inr (LinearDict terms))"
| "dict_copy n self =
     (if self = [] then Inr []
      else (case keys n self of
              Inl e \<Rightarrow> Inl e
            | Inr ks \<Rightarrow> Inr (fold (\<lambda>k acc. dict_setitem acc k (getitem self k)) ks [])))"
| "keys n self =
     (case copy n self of
        Inl e \<Rightarrow> Inl e
      | Inr snapshot \<Rightarrow> Inr (map fst (clean snapshot (Some 0))))"

text \<open>
  \<^verbatim>\<open>values\<close>, \<^verbatim>\<open>items\<close> and \<^verbatim>\<open>__iter__\<close> take the same snapshot
  \<^verbatim>\<open>self.copy().clean(atol=0)\<close> and return the built-in view of it.
\<close>

definition items :: "nat \<Rightarrow> 'k dict \<Rightarrow> error + ('k \<times> complex) list" where
  "items n self =
     (case copy n self of Inl e \<Rightarrow> Inl e | Inr snapshot \<Rightarrow> Inr (clean snapshot (Some 0)))"

definition values_ld :: "nat \<Rightarrow> 'k dict \<Rightarrow> error + complex list" where
  "values_ld n self =
     (case copy n self of
        Inl e \<Rightarrow> Inl e
      | Inr snapshot \<Rightarrow> Inr (map snd (clean snapshot (Some 0))))"

definition iter :: "nat \<Rightarrow> 'k dict \<Rightarrow> error + 'k list" where
  "iter n self =
     (case copy n self of
        Inl e \<Rightarrow> Inl e
      | Inr snapshot \<Rightarrow> Inr (map fst (clean snapshot (Some 0))))"


subsection \<open>Arithmetic\<close>

text \<open>
  \<^verbatim>\<open>
  def __iadd__(self, other):
      for vector, other_coefficient in other.items():
          old_coefficient = super().get(vector, 0)
          new_coefficient = old_coefficient + other_coefficient
          super().__setitem__(vector, new_coefficient)
      self.clean(atol=0)
      return self
  \<close>
  \<^verbatim>\<open>other.items()\<close> is evaluated once, before the loop; when it raises, nothing has
  been stored. The second argument is the storage of \<^verbatim>\<open>other\<close> at the call, the result
  is the new storage of \<^verbatim>\<open>self\<close>.
\<close>

definition iadd :: "nat \<Rightarrow> 'k dict \<Rightarrow> 'k dict \<Rightarrow> error + 'k dict" where
  "iadd n self other =
     (case items n other of
        Inl e \<Rightarrow> Inl e
      | Inr its \<Rightarrow>
          (let self1 = fold (\<lambda>(vector, other_coefficient) acc.
                         (let old_coefficient = dict_get acc vector 0;
                              new_coefficient = old_coefficient + other_coefficient
                          in dict_setitem acc vector new_coefficient))
                       its self
           in Inr (clean self1 (Some 0))))"

text \<open>
  \<^verbatim>\<open>
  def __add__(self, other):
      result = self.copy()
      result += other
      return result
  \<close>
\<close>

definition add :: "nat \<Rightarrow> 'k dict \<Rightarrow> 'k dict \<Rightarrow> error + 'k dict" where
  "add n self other =
     (case copy n self of Inl e \<Rightarrow> Inl e | Inr result \<Rightarrow> iadd n result other)"

definition isub :: "nat \<Rightarrow> 'k dict \<Rightarrow> 'k dict \<Rightarrow> error + 'k dict" where
  "isub n self other =
     (case items n other of
        Inl e \<Rightarrow> Inl e
      | Inr its \<Rightarrow>
          (let self1 = fold (\<lambda>(vector, other_coefficient) acc.
                         (let old_coefficient = dict_get acc vector 0;
                              new_coefficient = old_coefficient - other_coefficient
                          in dict_setitem acc vector new_coefficient))
                       its self
           in Inr (clean self1 (Some 0))))"

definition sub :: "nat \<Rightarrow> 'k dict \<Rightarrow> 'k dict \<Rightarrow> error + 'k dict" where
  "sub n self other =
     (case copy n self of Inl e \<Rightarrow> Inl e | Inr result \<Rightarrow> isub n result other)"

text \<open>\<^verbatim>\<open>return LinearDict({v: -c for v, c in self.items()})\<close>\<close>

definition neg :: "nat \<Rightarrow> 'k dict \<Rightarrow> error + 'k dict" where
  "neg n self =
     (case items n self of
        Inl e \<Rightarrow> Inl e
      | Inr its \<Rightarrow> Inr (LinearDict (dict_update [] [(v, - c). (v, c) \<leftarrow> its])))"

text \<open>
  \<^verbatim>\<open>
  def __imul__(self, a):
      for vector in self:
          self[vector] *= a
      self.clean(atol=0)
      return self
  \<close>
  \<^verbatim>\<open>for vector in self\<close> calls \<^verbatim>\<open>__iter__\<close> once, before the loop;
  \<^verbatim>\<open>self[vector] *= a\<close> is \<^verbatim>\<open>self.__setitem__(vector, self.__getitem__(vector) * a)\<close>.
\<close>

definition imul :: "nat \<Rightarrow> 'k dict \<Rightarrow> complex \<Rightarrow> error + 'k dict" where
  "imul n self a =
     (case iter n self of
        Inl e \<Rightarrow> Inl e
      | Inr vectors \<Rightarrow>
          (let self1 = fold (\<lambda>vector acc. setitem acc vector (getitem acc vector * a))
                       vectors self
           in Inr (clean self1 (Some 0))))"

definition mul :: "nat \<Rightarrow> 'k dict \<Rightarrow> complex \<Rightarrow> error + 'k dict" where
  "mul n self a =
     (case copy n self of Inl e \<Rightarrow> Inl e | Inr result \<Rightarrow> imul n result a)"


text \<open>Python's \<^verbatim>\<open>x / y\<close> on numbers raises ZeroDivisionError for a zero divisor.\<close>

definition py_truediv :: "complex \<Rightarrow> complex \<Rightarrow> error + complex" where
  "py_truediv x y = (if y = 0 then Inl ZeroDivisionError else Inr (x / y))"

text \<open>\<^verbatim>\<open>return self.__mul__(1 / a)\<close>: the quotient is evaluated first.\<close>

definition truediv :: "nat \<Rightarrow> 'k dict \<Rightarrow> complex \<Rightarrow> error + 'k dict" where
  "truediv n self a =
     (case py_truediv 1 a of Inl e \<Rightarrow> Inl e | Inr q \<Rightarrow> mul n self q)"

text \<open>\<^verbatim>\<open>return not all(c == 0 for c in self.values())\<close>\<close>

definition bool_ld :: "nat \<Rightarrow> 'k dict \<Rightarrow> error + bool" where
  "bool_ld n self =
     (case values_ld n self of
        Inl e \<Rightarrow> Inl e
      | Inr vs \<Rightarrow> Inr (\<not> list_all (\<lambda>c. c = 0) vs))"

subsection \<open>Equality\<close>

text \<open>
  The right operand is any Python object: a LinearDict (with its storage) or something
  else (\<^verbatim>\<open>isinstance(other, LinearDict)\<close> is false). A result is a truth value or the
  singleton \<^verbatim>\<open>NotImplemented\<close>.
  \<^verbatim>\<open>
  def __eq__(self, other):
      if not isinstance(other, LinearDict):
          return NotImplemented
      all_vs = set(self.keys()) | set(other.keys())
      return all(self[v] == other[v] for v in all_vs)
  def __ne__(self, other):
      if not isinstance(other, LinearDict):
          return NotImplemented
      return not self == other
  \<close>
  \<^verbatim>\<open>self.keys()\<close> is evaluated before \<^verbatim>\<open>other.keys()\<close>.
\<close>

datatype ('k, 'o) py_object = LinearDictObj "'k dict" | OtherObj 'o

datatype py_result = NotImplemented | Bool bool

definition eq_ld :: "nat \<Rightarrow> 'k dict \<Rightarrow> ('k, 'o) py_object \<Rightarrow> error + py_result" where
  "eq_ld n self other =
     (case other of
        OtherObj x \<Rightarrow> Inr NotImplemented
      | LinearDictObj other_d \<Rightarrow>
          (case keys n self of
             Inl e \<Rightarrow> Inl e
           | Inr self_keys \<Rightarrow>
              (case keys n other_d of
                 Inl e \<Rightarrow> Inl e
               | Inr other_keys \<Rightarrow>
                  (let all_vs = remdups (self_keys @ other_keys)
                   in Inr (Bool (list_all (\<lambda>v. getitem self v = getitem other_d v) all_vs))))))"

text \<open>In \<^verbatim>\<open>not self == other\<close> the operand is a LinearDict, so \<^verbatim>\<open>self == other\<close> is
  what \<^verbatim>\<open>__eq__\<close> returns or raises.\<close>

definition ne_ld :: "nat \<Rightarrow> 'k dict \<Rightarrow> ('k, 'o) py_object \<Rightarrow> error + py_result" where
  "ne_ld n self other =
     (case other of
        OtherObj x \<Rightarrow> Inr NotImplemented
      | LinearDictObj other_d \<Rightarrow>
          (case eq_ld n self other of
             Inl e \<Rightarrow> Inl e
           | Inr (Bool b) \<Rightarrow> Inr (Bool (\<not> b))
           | Inr NotImplemented \<Rightarrow> Inr NotImplemented))"

subsection \<open>Rendering\<close>

text \<open>
  Two built-ins of Python are used by the rendering code and modelled here.
  \<^verbatim>\<open>'{:{fmt}}'.format(x, fmt=format_spec)\<close> is modelled for the fixed-point specs
  \<^verbatim>\<open>'.Nf'\<close> (\<^verbatim>\<open>__str__\<close> passes \<^verbatim>\<open>'.3f'\<close>): the sign, the decimal digits of the
  value rounded half-even to N places, and the point when N is positive. An int
  argument is converted to float by this spec, so \<^verbatim>\<open>0\<close> is rendered like \<^verbatim>\<open>0.0\<close>.
  \<^verbatim>\<open>float(s)\<close> is modelled on signed decimal strings and raises ValueError otherwise.
\<close>

datatype format_spec = Fixed nat

definition digit_char :: "nat \<Rightarrow> char" where
  "digit_char n = ''0123456789'' ! n"

fun digits :: "nat \<Rightarrow> string" where
  "digits n = (if n < 10 then [digit_char n] else digits (n div 10) @ [digit_char (n mod 10)])"

definition round_half_even :: "real \<Rightarrow> int" where
  "round_half_even y =
     (let f = \<lfloor>y\<rfloor>; r = y - of_int f
      in if r < 1 / 2 then f else if 1 / 2 < r then f + 1 else if even f then f else f + 1)"

definition zfill :: "nat \<Rightarrow> string \<Rightarrow> string" where
  "zfill n s = replicate (n - length s) (CHR ''0'') @ s"

fun py_format :: "format_spec \<Rightarrow> real \<Rightarrow> string" where
  "py_format (Fixed p) x =
     (let q = nat (round_half_even (\<bar>x\<bar> * 10 ^ p));
          sign = (if x < 0 then ''-'' else []);
          whole = digits (q div 10 ^ p);
          frac = zfill p (digits (q mod 10 ^ p))
      in sign @ whole @ (if p = 0 then [] else ''.'' @ frac))"

definition digit_val :: "char \<Rightarrow> nat option" where
  "digit_val c =
     map_of [(CHR ''0'', 0), (CHR ''1'', 1), (CHR ''2'', 2), (CHR ''3'', 3), (CHR ''4'', 4),
             (CHR ''5'', 5), (CHR ''6'', 6), (CHR ''7'', 7), (CHR ''8'', 8), (CHR ''9'', 9)] c"

fun parse_digits :: "nat \<Rightarrow> string \<Rightarrow> nat option" where
  "parse_digits acc [] = Some acc"
| "parse_digits acc (c # cs) =
     (case digit_val c of None \<Rightarrow> None | Some n \<Rightarrow> parse_digits (10 * acc + n) cs)"

definition py_float :: "string \<Rightarrow> real option" where
  "py_float s =
     (let (negative, body) =
            (case s of
               [] \<Rightarrow> (False, s)
             | c # r \<Rightarrow> if c = CHR ''-'' then (True, r)
                        else if c = CHR ''+'' then (False, r) else (False, s));
          whole = takeWhile (\<lambda>c. c \<noteq> CHR ''.'') body;
          frac = drop 1 (dropWhile (\<lambda>c. c \<noteq> CHR ''.'') body)
      in if whole = [] \<and> frac = [] then None
         else (case parse_digits 0 whole of
                 None \<Rightarrow> None
               | Some w \<Rightarrow>
                  (case parse_digits 0 frac of
                     None \<Rightarrow> None
                   | Some f \<Rightarrow>
                       Some ((if negative then - 1 else 1)
                             * (real w + real f / 10 ^ length frac)))))"

text \<open>\<^verbatim>\<open>s[0] in chars\<close>, for a string that is not empty where the code reads it.\<close>

definition first_in :: "string \<Rightarrow> string \<Rightarrow> bool" where
  "first_in chars s = (case s of [] \<Rightarrow> False | c # r \<Rightarrow> c \<in> set chars)"

text \<open>
  \<^verbatim>\<open>
  def _format_coefficient(format_spec, coefficient):
      coefficient = complex(coefficient)
      real_str = '{:{fmt}}'.format(coefficient.real, fmt=format_spec)
      imag_str = '{:{fmt}}'.format(coefficient.imag, fmt=format_spec)
      if float(real_str) == 0 and float(imag_str) == 0:
          return ''
      if float(imag_str) == 0:
          return real_str
      if float(real_str) == 0:
          return imag_str + 'j'
      if real_str[0] == '-' and imag_str[0] == '-':
          return '-({}+{}j)'.format(real_str[1:], imag_str[1:])
      if imag_str[0] in ['+', '-']:
          return '({}{}j)'.format(real_str, imag_str)
      return '({}+{}j)'.format(real_str, imag_str)
  \<close>
  Both strings are parsed on every path (the first test parses the imaginary part
  when the real part is zero, the second test parses it otherwise).
\<close>

definition format_coefficient :: "format_spec \<Rightarrow> complex \<Rightarrow> error + string" where
  "format_coefficient format_spec coefficient =
     (let real_str = py_format format_spec (Re coefficient);
          imag_str = py_format format_spec (Im coefficient)
      in case py_float real_str of
           None \<Rightarrow> Inl ValueError
         | Some re_val \<Rightarrow>
            (case py_float imag_str of
               None \<Rightarrow> Inl ValueError
             | Some im_val \<Rightarrow>
                 Inr (if re_val = 0 \<and> im_val = 0 then []
                      else if im_val = 0 then real_str
                      else if re_val = 0 then imag_str @ ''j''
                      else if first_in ''-'' real_str \<and> first_in ''-'' imag_str
                        then ''-('' @ drop 1 real_str @ ''+'' @ drop 1 imag_str @ ''j)''
                      else if first_in ''+-'' imag_str
                        then ''('' @ real_str @ imag_str @ ''j)''
                      else ''('' @ real_str @ ''+'' @ imag_str @ ''j)'')))"

text \<open>
  \<^verbatim>\<open>
  def _format_term(format_spec, vector, coefficient):
      coefficient_str = LinearDict._format_coefficient(format_spec, coefficient)
      if not coefficient_str:
          return coefficient_str
      result = '{}*{!s}'.format(coefficient_str, vector)
      if result[0] in ['+', '-']:
          return result
      return '+' + result
  \<close>
  \<open>str\<close> is \<^verbatim>\<open>str(vector)\<close> of the key type.
\<close>

definition format_term :: "('k \<Rightarrow> string) \<Rightarrow> format_spec \<Rightarrow> 'k \<Rightarrow> complex \<Rightarrow> error + string" where
  "format_term str format_spec vector coefficient =
     (case format_coefficient format_spec coefficient of
        Inl e \<Rightarrow> Inl e
      | Inr coefficient_str \<Rightarrow>
          if coefficient_str = [] then Inr coefficient_str
          else (let result = coefficient_str @ ''*'' @ str vector
                in if first_in ''+-'' result then Inr result else Inr (''+'' @ result)))"

text \<open>A list comprehension whose element expression may raise: the first exception
  leaves it.\<close>

fun collect :: "(error + 'a) list \<Rightarrow> error + 'a list" where
  "collect [] = Inr []"
| "collect (Inl e # rs) = Inl e"
| "collect (Inr x # rs) = (case collect rs of Inl e \<Rightarrow> Inl e | Inr xs \<Rightarrow> Inr (x # xs))"

text \<open>
  \<^verbatim>\<open>
  def __format__(self, format_spec):
      formatted_terms = [self._format_term(format_spec, v, self[v])
                         for v in sorted(self.keys())]
      s = ''.join(formatted_terms)
      if not s:
          return '{:{fmt}}'.format(0, fmt=format_spec)
      if s[0] == '+':
          return s[1:]
      return s
  def __str__(self):
      return self.__format__('.3f')
  \<close>
\<close>

definition format_ld ::
  "nat \<Rightarrow> ('k::linorder \<Rightarrow> string) \<Rightarrow> 'k dict \<Rightarrow> format_spec \<Rightarrow> error + string" where
  "format_ld n str self format_spec =
     (case keys n self of
        Inl e \<Rightarrow> Inl e
      | Inr ks \<Rightarrow>
         (case collect [format_term str format_spec v (getitem self v). v \<leftarrow> sort ks] of
            Inl e \<Rightarrow> Inl e
          | Inr formatted_terms \<Rightarrow>
              (let s = concat formatted_terms
               in if s = [] then Inr (py_format format_spec 0)
                  else if first_in ''+'' s then Inr (drop 1 s)
                  else Inr s)))"

definition str_ld :: "nat \<Rightarrow> ('k::linorder \<Rightarrow> string) \<Rightarrow> 'k dict \<Rightarrow> error + string" where
  "str_ld n str self = format_ld n str self (Fixed 3)"

subsection \<open>Objects and references\<close>

text \<open>
  The in-place operators mutate \<^verbatim>\<open>self\<close> and return it, the other operators build a
  new object, and two names may refer to one object. A store holds the storage of
  every LinearDict object; a reference is an index into it, and a new object takes the
  next index. The snapshots made inside \<^verbatim>\<open>items\<close>, \<^verbatim>\<open>keys\<close> and \<^verbatim>\<open>__iter__\<close> are
  reachable from nowhere else and are not given a place in the store. An operator
  returns the store it leaves and either the exception or the reference it returns.
\<close>

type_synonym 'k heap = "'k dict list"
type_synonym ref = nat

definition new_LinearDict :: "'k heap \<Rightarrow> ('k \<times> complex) list \<Rightarrow> 'k heap \<times> ref" where
  "new_LinearDict h terms = (h @ [LinearDict terms], length h)"

definition clean_ref :: "'k heap \<Rightarrow> ref \<Rightarrow> real option \<Rightarrow> 'k heap \<times> ref" where
  "clean_ref h self atol_arg = (h[self := clean (h ! self) atol_arg], self)"

definition copy_ref :: "nat \<Rightarrow> 'k heap \<Rightarrow> ref \<Rightarrow> 'k heap \<times> (error + ref)" where
  "copy_ref n h self =
     (case copy n (h ! self) of
        Inl e \<Rightarrow> (h, Inl e)
      | Inr d \<Rightarrow> (h @ [d], Inr (length h)))"

definition iadd_ref :: "nat \<Rightarrow> 'k heap \<Rightarrow> ref \<Rightarrow> ref \<Rightarrow> 'k heap \<times> (error + ref)" where
  "iadd_ref n h self other =
     (case iadd n (h ! self) (h ! other) of
        Inl e \<Rightarrow> (h, Inl e)
      | Inr d \<Rightarrow> (h[self := d], Inr self))"

definition add_ref :: "nat \<Rightarrow> 'k heap \<Rightarrow> ref \<Rightarrow> ref \<Rightarrow> 'k heap \<times> (error + ref)" where
  "add_ref n h self other =
     (case copy_ref n h self of
        (h1, Inl e) \<Rightarrow> (h1, Inl e)
      | (h1, Inr result) \<Rightarrow> iadd_ref n h1 result other)"

definition isub_ref :: "nat \<Rightarrow> 'k heap \<Rightarrow> ref \<Rightarrow> ref \<Rightarrow> 'k heap \<times> (error + ref)" where
  "isub_ref n h self other =
     (case isub n (h ! self) (h ! other) of
        Inl e \<Rightarrow> (h, Inl e)
      | Inr d \<Rightarrow> (h[self := d], Inr self))"

definition sub_ref :: "nat \<Rightarrow> 'k heap \<Rightarrow> ref \<Rightarrow> ref \<Rightarrow> 'k heap \<times> (error + ref)" where
  "sub_ref n h self other =
     (case copy_ref n h self of
        (h1, Inl e) \<Rightarrow> (h1, Inl e)
      | (h1, Inr result) \<Rightarrow> isub_ref n h1 result other)"

definition neg_ref :: "nat \<Rightarrow> 'k heap \<Rightarrow> ref \<Rightarrow> 'k heap \<times> (error + ref)" where
  "neg_ref n h self =
     (case items n (h ! self) of
        Inl e \<Rightarrow> (h, Inl e)
      | Inr its \<Rightarrow>
          (case new_LinearDict h (dict_update [] [(v, - c). (v, c) \<leftarrow> its]) of
             (h1, result) \<Rightarrow> (h1, Inr result)))"

definition imul_ref :: "nat \<Rightarrow> 'k heap \<Rightarrow> ref \<Rightarrow> complex \<Rightarrow> 'k heap \<times> (error + ref)" where
  "imul_ref n h self a =
     (case imul n (h ! self) a of
        Inl e \<Rightarrow> (h, Inl e)
      | Inr d \<Rightarrow> (h[self := d], Inr self))"

definition mul_ref :: "nat \<Rightarrow> 'k heap \<Rightarrow> ref \<Rightarrow> complex \<Rightarrow> 'k heap \<times> (error + ref)" where
  "mul_ref n h self a =
     (case copy_ref n h self of
        (h1, Inl e) \<Rightarrow> (h1, Inl e)
      | (h1, Inr result) \<Rightarrow> imul_ref n h1 result a)"

definition rmul_ref :: "nat \<Rightarrow> 'k heap \<Rightarrow> ref \<Rightarrow> complex \<Rightarrow> 'k heap \<times> (error + ref)" where
  "rmul_ref n h self a = mul_ref n h self a"

text \<open>An exception leaves the store as it is when it is raised.\<close>

definition truediv_ref :: "nat \<Rightarrow> 'k heap \<Rightarrow> ref \<Rightarrow> complex \<Rightarrow> 'k heap \<times> (error + ref)" where
  "truediv_ref n h self a =
     (case py_truediv 1 a of
        Inl e \<Rightarrow> (h, Inl e)
      | Inr q \<Rightarrow> mul_ref n h self q)"

subsection \<open>Well-formed storage and invariant I1\<close>

text \<open>The keys of a dict are unique.\<close>

definition dict_wf :: "'k dict \<Rightarrow> bool" where
  "dict_wf d = distinct (map fst d)"

text \<open>I1: the storage holds no entry whose coefficient is exactly zero.\<close>

definition I1 :: "'k dict \<Rightarrow> bool" where
  "I1 d = list_all (\<lambda>(v, c). c \<noteq> 0) d"

section \<open>Properties of the storage operations\<close>

lemma fold_delitem: "fold (\<lambda>v acc. dict_delitem acc v) ks d = filter (\<lambda>p. fst p \<notin> set ks) d"
  by (induction ks arbitrary: d) (auto simp: dict_delitem_def AList.delete_eq intro: filter_cong)

lemma clean_subset: "set (clean d a) \<subseteq> set d"
  by (simp add: clean_def fold_delitem Let_def)

lemma clean_entry_large:
  assumes "(v, c) \<in> set (clean d (Some t))"
  shows "\<not> cmod c \<le> t"
proof
  assume "cmod c \<le> t"
  moreover have "(v, c) \<in> set d" using assms clean_subset by fastforce
  ultimately have "v \<in> set [v. (v, c) \<leftarrow> d, cmod c \<le> t]" by force
  moreover have "v \<notin> set [v. (v, c) \<leftarrow> d, cmod c \<le> t]"
    using assms unfolding clean_def fold_delitem Let_def by simp
  ultimately show False by blast
qed

lemma clean_default_entry_large:
  assumes "(v, c) \<in> set (clean d None)"
  shows "\<not> cmod c \<le> 1 / 10 ^ 9"
proof
  assume "cmod c \<le> 1 / 10 ^ 9"
  moreover have "(v, c) \<in> set d" using assms clean_subset by fastforce
  ultimately have "v \<in> set [v. (v, c) \<leftarrow> d, cmod c \<le> 1 / 10 ^ 9]" by force
  moreover have "v \<notin> set [v. (v, c) \<leftarrow> d, cmod c \<le> 1 / 10 ^ 9]"
    using assms unfolding clean_def fold_delitem Let_def by simp
  ultimately show False by blast
qed

lemma I1_iff: "I1 d = (\<forall>v. (v, 0) \<notin> set d)"
  by (auto simp: I1_def list_all_iff)



lemma I1_clean_nonneg: "0 \<le> t \<Longrightarrow> I1 (clean d (Some t))"
  using clean_entry_large[of _ 0 d t] by (auto simp: I1_iff)




lemma clean_filter:
  assumes "dict_wf d"
  shows "clean d a = filter (\<lambda>(v, c). \<not> cmod c \<le> (case a of None \<Rightarrow> 1 / 10 ^ 9 | Some t \<Rightarrow> t)) d"
proof -
  define t where "t = (case a of None \<Rightarrow> 1 / 10 ^ 9 | Some t \<Rightarrow> (t::real))"
  have "filter (\<lambda>p. fst p \<notin> set [v. (v, c) \<leftarrow> d, cmod c \<le> t]) d
        = filter (\<lambda>(v, c). \<not> cmod c \<le> t) d"
  proof (rule filter_cong[OF refl])
    fix p assume p: "p \<in> set d"
    obtain k c where kc: "p = (k, c)" by (cases p)
    have "(k \<in> set [v. (v, c) \<leftarrow> d, cmod c \<le> t]) = (cmod c \<le> t)"
    proof
      assume "k \<in> set [v. (v, c) \<leftarrow> d, cmod c \<le> t]"
      then obtain c' where "(k, c') \<in> set d" "cmod c' \<le> t" by auto
      with p kc assms have "c' = c" unfolding dict_wf_def by (metis eq_key_imp_eq_value)
      with \<open>cmod c' \<le> t\<close> show "cmod c \<le> t" by simp
    next
      assume "cmod c \<le> t"
      with p kc show "k \<in> set [v. (v, c) \<leftarrow> d, cmod c \<le> t]" by force
    qed
    with kc show "(fst p \<notin> set [v. (v, c) \<leftarrow> d, cmod c \<le> t]) = (case p of (v, c) \<Rightarrow> \<not> cmod c \<le> t)"
      by simp
  qed
  then show ?thesis by (simp add: clean_def fold_delitem Let_def t_def)
qed

lemma clean0_filter: "dict_wf d \<Longrightarrow> clean d (Some 0) = filter (\<lambda>(v, c). c \<noteq> 0) d"
  by (simp add: clean_filter)

lemma wf_clean: "dict_wf d \<Longrightarrow> dict_wf (clean d a)"
  by (simp add: clean_def fold_delitem Let_def dict_wf_def distinct_map_filter)

lemma clean0_id: "dict_wf d \<Longrightarrow> I1 d \<Longrightarrow> clean d (Some 0) = d"
  by (auto simp: clean0_filter I1_iff filter_id_conv)

lemma map_of_filter_wf:
  "dict_wf d \<Longrightarrow> map_of (filter P d) k =
     (case map_of d k of None \<Rightarrow> None | Some c \<Rightarrow> if P (k, c) then Some c else None)"
proof (induction d)
  case Nil then show ?case by simp
next
  case (Cons p d)
  obtain k' c' where p: "p = (k', c')" by (cases p)
  have wf: "dict_wf d" and notin: "k' \<notin> fst ` set d" using Cons.prems p by (auto simp: dict_wf_def)
  have none: "map_of d k' = None" using notin by (simp add: map_of_eq_None_iff)
  show ?case using Cons.IH[OF wf] p none by (auto split: option.splits)
qed

lemma getitem_clean0: "dict_wf d \<Longrightarrow> getitem (clean d (Some 0)) k = getitem d k"
  by (simp add: clean0_filter map_of_filter_wf getitem_def dict_get_def split: option.splits)

lemma dict_update_map_of: "map_of (dict_update d ps) = map_of d ++ map_of (rev ps)"
  by (induction ps arbitrary: d) (auto simp: dict_update_def dict_setitem_def AList.update_conv')

lemma wf_dict_update: "dict_wf d \<Longrightarrow> dict_wf (dict_update d ps)"
  by (induction ps arbitrary: d)
     (auto simp: dict_wf_def dict_update_def dict_setitem_def AList.distinct_update)

lemma alist_update_new: "k \<notin> fst ` set d \<Longrightarrow> AList.update k v d = d @ [(k, v)]"
  by (induction d) auto

lemma dict_update_append:
  "distinct (map fst (d @ ps)) \<Longrightarrow> dict_update d ps = d @ ps"
proof (induction ps arbitrary: d)
  case Nil then show ?case by (simp add: dict_update_def)
next
  case (Cons p ps)
  obtain k v where p: "p = (k, v)" by (cases p)
  have "k \<notin> fst ` set d" using Cons.prems p by auto
  then have "dict_setitem d k v = d @ [(k, v)]" by (simp add: dict_setitem_def alist_update_new)
  moreover have "distinct (map fst ((d @ [(k, v)]) @ ps))" using Cons.prems p by auto
  ultimately show ?case using Cons.IH[of "d @ [(k, v)]"] p by (simp add: dict_update_def)
qed

lemma dict_update_empty: "dict_wf d \<Longrightarrow> dict_update [] d = d"
  using dict_update_append[of "[]" d] by (simp add: dict_wf_def)

lemma wf_update: "dict_wf d \<Longrightarrow> dict_wf (update d ps)"
  by (simp add: update_def wf_clean wf_dict_update)

lemma wf_Nil: "dict_wf []"
  by (simp add: dict_wf_def)

lemma wf_LinearDict: "dict_wf (LinearDict ps)"
  by (simp add: LinearDict_def wf_update wf_Nil)



lemma getitem_update:
  "dict_wf d \<Longrightarrow> getitem (update d ps) k = (case map_of (rev ps) k of None \<Rightarrow> getitem d k | Some c \<Rightarrow> c)"
  by (simp add: update_def getitem_clean0 wf_dict_update)
     (simp add: getitem_def dict_get_def dict_update_map_of map_add_def split: option.splits)

lemma getitem_LinearDict:
  "getitem (LinearDict ps) k = (case map_of (rev ps) k of None \<Rightarrow> 0 | Some c \<Rightarrow> c)"
proof -
  have "getitem ([] :: ('a \<times> complex) list) k = 0" by (simp add: getitem_def dict_get_def)
  then show ?thesis using getitem_update[OF wf_Nil, of ps k]
    by (simp add: LinearDict_def split: option.splits)
qed

lemma getitem_Some: "dict_wf d \<Longrightarrow> (k, c) \<in> set d \<Longrightarrow> getitem d k = c"
  by (simp add: getitem_def dict_get_def dict_wf_def)

lemma getitem_nonzero_entry: "getitem d k \<noteq> 0 \<Longrightarrow> (k, getitem d k) \<in> set d"
  by (auto simp: getitem_def dict_get_def split: option.splits dest: map_of_SomeD)


lemma comprehension_filter:
  "[v. (v, c) \<leftarrow> xs, P c] = map fst (filter (\<lambda>(v, c). P c) xs)"
  by (induction xs) auto

section \<open>The claims\<close>

text \<open>
  C5. Lookup is total. The subscript read \<^verbatim>\<open>a[key]\<close> has no failing path: it returns
  the stored coefficient, or 0 when the key is absent. \<^verbatim>\<open>get(key, default)\<close> returns
  the stored coefficient, or the default when the key is absent or its stored
  coefficient is exactly zero; the \<^verbatim>\<open>None\<close> of the inner \<^verbatim>\<open>dict.get\<close> is never
  returned. This holds for any storage, also one that holds a zero entry.
\<close>

theorem lookup_total:
  "getitem self key = (case map_of self key of None \<Rightarrow> 0 | Some c \<Rightarrow> c)
   \<and> get self key dflt =
       (case map_of self key of
          None \<Rightarrow> Default dflt
        | Some c \<Rightarrow> if c = 0 then Default dflt else Coefficient c)
   \<and> get self key dflt \<noteq> PyNone"
  by (simp add: getitem_def get_def dict_get_def split: option.splits)

text \<open>
  C9. \<^verbatim>\<open>clean()\<close> without a tolerance uses the absolute tolerance \<open>10\<^sup>-\<^sup>9\<close>: on well-formed
  storage it keeps, in order, exactly the entries whose coefficient has absolute value
  above \<open>10\<^sup>-\<^sup>9\<close>, so it also removes entries that are not zero (one with coefficient
  \<open>10\<^sup>-\<^sup>1\<^sup>0\<close> is removed, which \<^verbatim>\<open>clean(atol=0)\<close> keeps), and it returns the object it
  was called on.
\<close>

theorem clean_default_tolerance:
  "(dict_wf self \<longrightarrow> clean self None = filter (\<lambda>(v, c). \<not> cmod c \<le> 1 / 10 ^ 9) self)
   \<and> (\<forall>v c. (v, c) \<in> set (clean self None) \<longrightarrow> (v, c) \<in> set self \<and> 1 / 10 ^ 9 < cmod c)
   \<and> clean [(x, 1 / 10 ^ 10)] None = []
   \<and> clean [(x, 1 / 10 ^ 10)] (Some 0) = [(x, 1 / 10 ^ 10)]
   \<and> clean_ref h r None = (h[r := clean (h ! r) None], r)
   \<and> snd (clean_ref h r None) = r"
proof -
  have "clean [(x, 1 / 10 ^ 10)] None = []"
    by (simp add: clean_def dict_delitem_def norm_divide norm_power)
  moreover have "clean [(x, 1 / 10 ^ 10)] (Some 0) = [(x, 1 / 10 ^ 10)]"
    by (simp add: clean_def)
  moreover have "\<forall>v c. (v, c) \<in> set (clean self None) \<longrightarrow> (v, c) \<in> set self \<and> 1 / 10 ^ 9 < cmod c"
    using clean_default_entry_large[of _ _ self] clean_subset[of self None] by fastforce
  moreover have "dict_wf self \<longrightarrow> clean self None = filter (\<lambda>(v, c). \<not> cmod c \<le> 1 / 10 ^ 9) self"
    by (simp add: clean_filter)
  moreover have "clean_ref h r None = (h[r := clean (h ! r) None], r)"
    by (simp add: clean_ref_def)
  ultimately show ?thesis by simp
qed

theorem clean_default_tolerance_witness:
  "dict_wf [(2::nat, 3), (5, 1 / 10 ^ 9), (7, 0), (8, \<i>)]
   \<and> clean [(2::nat, 3), (5, 1 / 10 ^ 9), (7, 0), (8, \<i>)] None = [(2, 3), (8, \<i>)]
   \<and> (8::nat, \<i>) \<in> set (clean [(2::nat, 3), (5, 1 / 10 ^ 9), (7, 0), (8, \<i>)] None)
   \<and> 1 / 10 ^ 9 < cmod \<i>"
proof -
  have wf: "dict_wf [(2::nat, 3::complex), (5, 1 / 10 ^ 9), (7, 0), (8, \<i>)]"
    by (simp add: dict_wf_def)
  have eq: "clean [(2::nat, 3), (5, 1 / 10 ^ 9), (7, 0), (8, \<i>)] None = [(2, 3), (8, \<i>)]"
    using wf clean_default_tolerance[of "[(2::nat, 3), (5, 1 / 10 ^ 9), (7, 0), (8, \<i>)]" "0::nat" "[] :: nat heap" 0]
    by (simp add: norm_divide norm_power)
  have mem: "(8::nat, \<i>) \<in> set (clean [(2::nat, 3), (5, 1 / 10 ^ 9), (7, 0), (8, \<i>)] None)"
    unfolding eq by simp
  have "1 / 10 ^ 9 < cmod \<i>"
    using mem clean_default_tolerance[of "[(2::nat, 3), (5, 1 / 10 ^ 9), (7, 0), (8, \<i>)]" "0::nat" "[] :: nat heap" 0]
    by blast
  with wf eq mem show ?thesis by blast
qed

section \<open>The cycle between copy and keys\<close>

lemma LinearDict_Nil: "LinearDict [] = ([] :: 'k dict)"
  by (simp add: LinearDict_def update_def dict_update_def clean_def)

lemma clean_Nil: "clean ([] :: 'k dict) a = []"
  by (simp add: clean_def)

lemma copy_nonempty: "copy n (p # ps) = Inl RecursionError"
  by (induction n) simp_all

lemma copy_empty: "copy (Suc n) ([] :: 'k dict) = Inr []"
  by (simp add: LinearDict_Nil)

lemma copy_cases:
  "copy n self = (if n = 0 \<or> self \<noteq> [] then Inl RecursionError else Inr [])"
proof (cases self)
  case Nil
  then show ?thesis by (cases n) (simp_all add: LinearDict_Nil)
next
  case (Cons p ps)
  then show ?thesis by (simp add: copy_nonempty)
qed

lemma copy_returns: "copy n self = Inr d \<Longrightarrow> self = [] \<and> d = []"
  by (simp add: copy_cases split: if_splits)

lemma keys_cases:
  "keys n self = (if n = 0 \<or> self \<noteq> [] then Inl RecursionError else Inr [])"
  by (simp add: copy_cases clean_Nil)

lemma items_cases:
  "items n self = (if n = 0 \<or> self \<noteq> [] then Inl RecursionError else Inr [])"
  by (simp add: items_def copy_cases clean_Nil)

lemma values_cases:
  "values_ld n self = (if n = 0 \<or> self \<noteq> [] then Inl RecursionError else Inr [])"
  by (simp add: values_ld_def copy_cases clean_Nil)

lemma iter_cases:
  "iter n self = (if n = 0 \<or> self \<noteq> [] then Inl RecursionError else Inr [])"
  by (simp add: iter_def copy_cases clean_Nil)


lemma bool_cases:
  "bool_ld n self = (if n = 0 \<or> self \<noteq> [] then Inl RecursionError else Inr False)"
  by (simp add: bool_ld_def values_cases)

lemma iadd_cases:
  "iadd n self other =
     (if n = 0 \<or> other \<noteq> [] then Inl RecursionError else Inr (clean self (Some 0)))"
  by (simp add: iadd_def items_cases)

lemma isub_cases:
  "isub n self other =
     (if n = 0 \<or> other \<noteq> [] then Inl RecursionError else Inr (clean self (Some 0)))"
  by (simp add: isub_def items_cases)

lemma imul_cases:
  "imul n self a = (if n = 0 \<or> self \<noteq> [] then Inl RecursionError else Inr [])"
  by (simp add: imul_def iter_cases clean_Nil)

lemma add_cases:
  "add n self other =
     (if n = 0 \<or> self \<noteq> [] \<or> other \<noteq> [] then Inl RecursionError else Inr [])"
  by (simp add: add_def copy_cases iadd_cases clean_Nil)

lemma sub_cases:
  "sub n self other =
     (if n = 0 \<or> self \<noteq> [] \<or> other \<noteq> [] then Inl RecursionError else Inr [])"
  by (simp add: sub_def copy_cases isub_cases clean_Nil)

lemma mul_cases:
  "mul n self a = (if n = 0 \<or> self \<noteq> [] then Inl RecursionError else Inr [])"
  by (simp add: mul_def copy_cases imul_cases)

lemma neg_cases:
  "neg n self = (if n = 0 \<or> self \<noteq> [] then Inl RecursionError else Inr [])"
  by (simp add: neg_def items_cases dict_update_def LinearDict_Nil)

subsection \<open>Invariant I1 on what the operations return\<close>



























subsection \<open>Construction, and operators on a non-empty container\<close>

lemma LinearDict_single: "c \<noteq> 0 \<Longrightarrow> LinearDict [(a, c)] = [(a, c)]"
  by (simp add: LinearDict_def update_def dict_update_def dict_setitem_def clean_def)

lemma update_example: "update (LinearDict [(x, 1)]) [(x, 2)] = [(x, 2)]"
  by (simp add: update_def LinearDict_def clean_def dict_update_def dict_setitem_def
                dict_delitem_def)

lemma construct_example: "LinearDict [(x, 1), (x, 2)] = [(x, 2)]"
  by (simp add: update_def LinearDict_def clean_def dict_update_def dict_setitem_def
                dict_delitem_def)

lemma eq_ld_cases:
  "eq_ld n self (LinearDictObj other_d) =
     (if n = 0 \<or> self \<noteq> [] \<or> other_d \<noteq> [] then Inl RecursionError else Inr (Bool True))"
  by (simp add: eq_ld_def keys_cases del: keys.simps)

lemma ne_ld_cases:
  "ne_ld n self (LinearDictObj other_d) =
     (if n = 0 \<or> self \<noteq> [] \<or> other_d \<noteq> [] then Inl RecursionError else Inr (Bool False))"
  by (simp add: ne_ld_def eq_ld_cases)

lemma truediv_cases:
  "truediv n self a =
     (if a = 0 then Inl ZeroDivisionError
      else if n = 0 \<or> self \<noteq> [] then Inl RecursionError else Inr [])"
  by (simp add: truediv_def py_truediv_def mul_cases)

text \<open>
  C2. Construction and \<^verbatim>\<open>update\<close> overwrite: reading a key after construction from a
  sequence of pairs gives the coefficient of the last pair with that key (0 when there
  is none), and \<open>{x: 1}\<close> updated with \<open>{x: 2}\<close> is \<open>{x: 2}\<close>. The other half of the
  claim fails in the code: \<open>{x: 1}\<close> \<^verbatim>\<open>+=\<close> \<open>{x: 2}\<close> does not yield \<open>{x: 3}\<close>, it raises
  RecursionError, as \<^verbatim>\<open>+=\<close> does for every non-empty right operand, whatever the
  depth the interpreter allows; the left operand is left as it was.
\<close>

theorem overwrite_holds_iadd_raises:
  "getitem (LinearDict terms) k = (case map_of (rev terms) k of None \<Rightarrow> 0 | Some c \<Rightarrow> c)
   \<and> LinearDict [(x, 1), (x, 2)] = [(x, 2)]
   \<and> update (LinearDict [(x, 1)]) [(x, 2)] = [(x, 2)]
   \<and> iadd n (LinearDict [(x, 1)]) (LinearDict [(x, 2)]) = Inl RecursionError
   \<and> iadd_ref n [LinearDict [(x, 1)], LinearDict [(x, 2)]] 0 1
       = ([LinearDict [(x, 1)], LinearDict [(x, 2)]], Inl RecursionError)
   \<and> iadd n self (p # ps) = Inl RecursionError"
proof -
  have "iadd n (LinearDict [(x, 1)]) (LinearDict [(x, 2)]) = Inl RecursionError"
    by (simp add: LinearDict_single iadd_cases)
  moreover have "iadd_ref n [LinearDict [(x, 1)], LinearDict [(x, 2)]] 0 1
       = ([LinearDict [(x, 1)], LinearDict [(x, 2)]], Inl RecursionError)"
    by (simp add: LinearDict_single iadd_cases iadd_ref_def)
  moreover have "iadd n self (p # ps) = Inl RecursionError" by (simp add: iadd_cases)
  ultimately show ?thesis
    using getitem_LinearDict[of terms k] construct_example[of x] update_example[of x]
    by blast
qed

text \<open>
  C3. Exact equality. Against an object that is not a LinearDict, \<^verbatim>\<open>==\<close> and \<^verbatim>\<open>!=\<close>
  return \<^verbatim>\<open>NotImplemented\<close>. Between containers the claim fails in the code:
  \<^verbatim>\<open>LinearDict({x: 1}) == LinearDict({x: 1})\<close> does not return true, it raises
  RecursionError in \<^verbatim>\<open>self.keys()\<close>, and so do \<^verbatim>\<open>==\<close> and \<^verbatim>\<open>!=\<close> whenever either
  operand is not empty; only two empty containers are compared, and are equal.
\<close>

theorem equality_raises:
  "eq_ld n (LinearDict [(x, 1)]) (LinearDictObj (LinearDict [(x, 1)]) :: ('k, 'o) py_object)
     = Inl RecursionError
   \<and> ne_ld n (LinearDict [(x, 1)]) (LinearDictObj (LinearDict [(x, 1)]) :: ('k, 'o) py_object)
     = Inl RecursionError
   \<and> eq_ld n (p # ps) (LinearDictObj other_d :: ('k, 'o) py_object) = Inl RecursionError
   \<and> eq_ld n self (LinearDictObj (p # ps) :: ('k, 'o) py_object) = Inl RecursionError
   \<and> ne_ld n (p # ps) (LinearDictObj other_d :: ('k, 'o) py_object) = Inl RecursionError
   \<and> ne_ld n self (LinearDictObj (p # ps) :: ('k, 'o) py_object) = Inl RecursionError
   \<and> eq_ld (Suc n) [] (LinearDictObj [] :: ('k, 'o) py_object) = Inr (Bool True)
   \<and> ne_ld (Suc n) [] (LinearDictObj [] :: ('k, 'o) py_object) = Inr (Bool False)
   \<and> eq_ld n self (OtherObj (y :: 'o) :: ('k, 'o) py_object) = Inr NotImplemented
   \<and> ne_ld n self (OtherObj (y :: 'o) :: ('k, 'o) py_object) = Inr NotImplemented"
proof -
  have "eq_ld n self (OtherObj y :: ('k, 'o) py_object) = Inr NotImplemented"
    "ne_ld n self (OtherObj y :: ('k, 'o) py_object) = Inr NotImplemented"
    by (simp_all add: eq_ld_def ne_ld_def)
  then show ?thesis
    by (simp add: eq_ld_cases ne_ld_cases LinearDict_single)
qed



subsection \<open>The operators on references\<close>

lemma copy_ref_nonempty: "h ! a = p # ps \<Longrightarrow> copy_ref n h a = (h, Inl RecursionError)"
  by (simp add: copy_ref_def copy_cases)

lemma add_ref_nonempty: "h ! a = p # ps \<Longrightarrow> add_ref n h a b = (h, Inl RecursionError)"
  by (simp add: add_ref_def copy_ref_nonempty)

lemma sub_ref_nonempty: "h ! a = p # ps \<Longrightarrow> sub_ref n h a b = (h, Inl RecursionError)"
  by (simp add: sub_ref_def copy_ref_nonempty)

lemma mul_ref_nonempty: "h ! a = p # ps \<Longrightarrow> mul_ref n h a s = (h, Inl RecursionError)"
  by (simp add: mul_ref_def copy_ref_nonempty)

lemma neg_ref_nonempty: "h ! a = p # ps \<Longrightarrow> neg_ref n h a = (h, Inl RecursionError)"
  by (simp add: neg_ref_def items_cases)

lemma iadd_ref_nonempty: "h ! b = p # ps \<Longrightarrow> iadd_ref n h a b = (h, Inl RecursionError)"
  by (simp add: iadd_ref_def iadd_cases)

text \<open>
  C6. Frame property of the value-returning operators. The claim fails in the code
  where it says that each operator returns a new container: with a non-empty left
  operand, \<^verbatim>\<open>a + b\<close>, \<^verbatim>\<open>a - b\<close>, \<^verbatim>\<open>a * s\<close>, \<^verbatim>\<open>s * a\<close>, \<^verbatim>\<open>-a\<close> and \<^verbatim>\<open>a / s\<close> (\<open>s\<close> not
  zero) raise RecursionError and return nothing, whatever the depth the interpreter
  allows. The store is then what it was, so the operands are unmodified.
\<close>

theorem operators_raise:
  "add_ref n [LinearDict [(x, 1)], LinearDict [(x, 2)]] 0 1
     = ([LinearDict [(x, 1)], LinearDict [(x, 2)]], Inl RecursionError)
   \<and> add_ref n [p # ps, d] 0 1 = ([p # ps, d], Inl RecursionError)
   \<and> sub_ref n [p # ps, d] 0 1 = ([p # ps, d], Inl RecursionError)
   \<and> mul_ref n [p # ps, d] 0 s = ([p # ps, d], Inl RecursionError)
   \<and> rmul_ref n [p # ps, d] 0 s = ([p # ps, d], Inl RecursionError)
   \<and> neg_ref n [p # ps, d] 0 = ([p # ps, d], Inl RecursionError)
   \<and> truediv_ref n [p # ps, d] 0 2 = ([p # ps, d], Inl RecursionError)
   \<and> add_ref (Suc n) [[], []] 0 1 = ([[], [], []], Inr 2)"
proof -
  have "add_ref n [LinearDict [(x, 1)], LinearDict [(x, 2)]] 0 1
     = ([LinearDict [(x, 1)], LinearDict [(x, 2)]], Inl RecursionError)"
    by (simp add: LinearDict_single add_ref_nonempty)
  moreover have "add_ref n [p # ps, d] 0 1 = ([p # ps, d], Inl RecursionError)"
    "sub_ref n [p # ps, d] 0 1 = ([p # ps, d], Inl RecursionError)"
    "mul_ref n [p # ps, d] 0 s = ([p # ps, d], Inl RecursionError)"
    "rmul_ref n [p # ps, d] 0 s = ([p # ps, d], Inl RecursionError)"
    "neg_ref n [p # ps, d] 0 = ([p # ps, d], Inl RecursionError)"
    "truediv_ref n [p # ps, d] 0 2 = ([p # ps, d], Inl RecursionError)"
    by (simp_all add: add_ref_nonempty sub_ref_nonempty mul_ref_nonempty neg_ref_nonempty
                      rmul_ref_def truediv_ref_def py_truediv_def)
  moreover have "add_ref (Suc n) [[], []] 0 1 = ([[], [], []], Inr 2)"
    by (simp add: add_ref_def copy_ref_def copy_cases iadd_ref_def iadd_cases clean_Nil
             del: copy.simps)
  ultimately show ?thesis by blast
qed

text \<open>
  C7. Additive inverse. The claim fails in the code for every non-empty container:
  with \<open>a = {x: 1}\<close>, \<^verbatim>\<open>-a\<close> raises RecursionError (in \<^verbatim>\<open>self.items()\<close>), so \<^verbatim>\<open>a + (-a)\<close>
  is never formed, and \<^verbatim>\<open>a - a\<close> raises it too (in \<^verbatim>\<open>self.copy()\<close>). Only for the
  empty container are \<^verbatim>\<open>-a\<close>, \<^verbatim>\<open>a + (-a)\<close> and \<^verbatim>\<open>a - a\<close> formed; they are empty and
  falsy.
\<close>

theorem additive_inverse_raises:
  "neg n (LinearDict [(x, 1)]) = Inl RecursionError
   \<and> sub n (LinearDict [(x, 1)]) (LinearDict [(x, 1)]) = Inl RecursionError
   \<and> neg n (p # ps) = Inl RecursionError
   \<and> add n (p # ps) other = Inl RecursionError
   \<and> sub n (p # ps) (p # ps) = Inl RecursionError
   \<and> bool_ld n (p # ps) = Inl RecursionError
   \<and> neg (Suc n) [] = Inr []
   \<and> add (Suc n) [] [] = Inr []
   \<and> sub (Suc n) [] [] = Inr []
   \<and> bool_ld (Suc n) [] = Inr False"
  by (simp add: LinearDict_single neg_cases add_cases sub_cases bool_cases)

text \<open>
  C10. Self-aliased in-place addition. The claim fails in the code for every non-empty
  container: \<^verbatim>\<open>a += a\<close> does not yield \<open>a * 2\<close>, it raises RecursionError in
  \<^verbatim>\<open>other.items()\<close> before anything is stored, whatever the depth the interpreter
  allows, and leaves \<open>a\<close> as it was; \<^verbatim>\<open>a * 2\<close> raises it as well. Only the empty
  container is doubled, and stays empty.
\<close>

theorem self_aliased_iadd_raises:
  "iadd_ref n [LinearDict [(x, 1)]] 0 0 = ([LinearDict [(x, 1)]], Inl RecursionError)
   \<and> iadd_ref n [p # ps] 0 0 = ([p # ps], Inl RecursionError)
   \<and> iadd n (p # ps) (p # ps) = Inl RecursionError
   \<and> mul n (p # ps) 2 = Inl RecursionError
   \<and> iadd_ref (Suc n) [[]] 0 0 = ([[]], Inr 0)"
  by (simp add: LinearDict_single iadd_ref_def iadd_cases mul_cases clean_Nil)

end
